theory Spec2Isabelle
  imports Main "HOL-Library.Word"
begin

unbundle bit_operations_syntax

section \<open>Python values\<close>

text \<open>
  The values that travel through npmctl: what \<open>json.loads\<close> produces (None, booleans,
  integers, floats, strings, lists, dicts with string keys) and tuples, which
  \<open>redact_value\<close> also walks. A Python \<open>str\<close> is a \<open>string\<close>, one \<open>char\<close> per
  character. A float is its IEEE-754 bit pattern. A dict is the list of its items in
  insertion order.

  Functions keep their Python names, without the leading underscore of a private name;
  a method of the dataclass \<open>NPMClient\<close> is prefixed with \<open>NPMClient_\<close>.
\<close>

datatype pyval =
    PNone
  | PBool bool
  | PInt int
  | PFloat "64 word"
  | PStr string
  | PList "pyval list"
  | PTuple "pyval list"
  | PDict "(string \<times> pyval) list"

text \<open>Python truthiness, as \<open>if x\<close>, \<open>not x\<close> and \<open>x or y\<close> use it.\<close>

fun truthy :: "pyval \<Rightarrow> bool" where
  "truthy PNone = False"
| "truthy (PBool b) = b"
| "truthy (PInt i) = (i \<noteq> 0)"
| "truthy (PFloat w) = (push_bit 1 w \<noteq> 0)"
| "truthy (PStr s) = (s \<noteq> [])"
| "truthy (PList xs) = (xs \<noteq> [])"
| "truthy (PTuple xs) = (xs \<noteq> [])"
| "truthy (PDict kvs) = (kvs \<noteq> [])"

text \<open>\<open>a or b\<close>: the first operand when it is truthy, the second otherwise.\<close>

definition py_or :: "pyval \<Rightarrow> pyval \<Rightarrow> pyval" where
  "py_or a b = (if truthy a then a else b)"

text \<open>An \<open>Optional[str]\<close> as a value.\<close>

definition of_opt :: "string option \<Rightarrow> pyval" where
  "of_opt x = (case x of None \<Rightarrow> PNone | Some s \<Rightarrow> PStr s)"

text \<open>\<open>d.get(key)\<close>: the value stored under the key, None when there is none.\<close>

definition dict_get :: "(string \<times> pyval) list \<Rightarrow> string \<Rightarrow> pyval" where
  "dict_get d k = (case map_of d k of None \<Rightarrow> PNone | Some v \<Rightarrow> v)"

text \<open>
  \<open>str(x)\<close> is the string itself on a \<open>str\<close>. On every other value it is Python's
  printing, a builtin taken as the parameter \<open>repr\<close>.
\<close>

definition py_str :: "(pyval \<Rightarrow> string) \<Rightarrow> pyval \<Rightarrow> string" where
  "py_str repr v = (case v of PStr s \<Rightarrow> s | _ \<Rightarrow> repr v)"

text \<open>Decimal printing of an integer, as an f-string does it.\<close>

definition digit_char :: "nat \<Rightarrow> char" where
  "digit_char d = char_of (48 + d)"

function str_nat :: "nat \<Rightarrow> string" where
  "str_nat n = (if n < 10 then [digit_char n] else str_nat (n div 10) @ [digit_char (n mod 10)])"
  by pat_completeness auto
termination
  by (relation "measure id") auto

declare str_nat.simps [simp del]

definition str_int :: "int \<Rightarrow> string" where
  "str_int i = (if i < 0 then CHR ''-'' # str_nat (nat (- i)) else str_nat (nat i))"

text \<open>The slice \<open>s[:n]\<close> and the slice \<open>s[-n:]\<close> for a positive literal n.\<close>

definition slice_to :: "int \<Rightarrow> 'a list \<Rightarrow> 'a list" where
  "slice_to n s = (if n < 0 then take (length s - nat (- n)) s else take (nat n) s)"

definition slice_last :: "nat \<Rightarrow> 'a list \<Rightarrow> 'a list" where
  "slice_last n s = drop (length s - n) s"

text \<open>
  What \<open>json.loads\<close> does with a text or with the bytes of a body: it returns the
  decoded value, raises \<open>JSONDecodeError\<close> where the input is not JSON, or raises
  another \<open>ValueError\<close> (an integer literal with more digits than the interpreter
  converts, bytes that do not decode). \<open>JSONDecodeError\<close> is a subclass of
  \<open>ValueError\<close>. The interpreter's recursion limit is not modelled.
\<close>

datatype loads_outcome = Loaded pyval | JSONDecodeError | ValueError

text \<open>
  The builtins the code calls and the model does not define: \<open>json.loads\<close>,
  \<open>json.dumps\<close> with \<open>indent=2, ensure_ascii=False\<close>, and the printing of a value
  that is not a \<open>str\<close>.
\<close>

record python =
  json_loads :: "string \<Rightarrow> loads_outcome"
  json_dumps :: "pyval \<Rightarrow> string"
  repr :: "pyval \<Rightarrow> string"

section \<open>debug.py\<close>

definition SENSITIVE_KEYS :: "string list" where
  "SENSITIVE_KEYS =
     [''authorization'', ''token'', ''secret'', ''password'',
      ''dns_provider_credentials'', ''cloudflare_api_token'']"

definition mask_secret :: "string \<Rightarrow> string" where
  "mask_secret val =
     (if val = [] \<or> length val \<le> 8 then ''***''
      else slice_to 4 val @ ''...'' @ slice_last 4 val)"

text \<open>\<open>str.lower\<close> on characters below code point 256.\<close>

definition lower_char :: "char \<Rightarrow> char" where
  "lower_char c =
     (let n = (of_char c :: nat)
      in if (65 \<le> n \<and> n \<le> 90) \<or> (192 \<le> n \<and> n \<le> 222 \<and> n \<noteq> 215)
         then char_of (n + 32) else c)"

definition lower :: "string \<Rightarrow> string" where
  "lower s = map lower_char s"

text \<open>\<open>sub in s\<close> on strings: sub occurs in s as a contiguous run.\<close>

fun contains :: "string \<Rightarrow> string \<Rightarrow> bool" where
  "contains sub [] = (sub = [])"
| "contains sub (c # cs) = (take (length sub) (c # cs) = sub \<or> contains sub cs)"

definition is_sensitive_key :: "string \<Rightarrow> bool" where
  "is_sensitive_key key_hint =
     (let hint = lower key_hint
      in list_ex (\<lambda>secret_key. contains secret_key hint) SENSITIVE_KEYS)"

fun redact_value :: "pyval \<Rightarrow> string \<Rightarrow> pyval" where
  "redact_value (PStr s) key_hint =
     (if is_sensitive_key key_hint then PStr (mask_secret s) else PStr s)"
| "redact_value (PDict kvs) key_hint =
     (if is_sensitive_key key_hint then PStr ''***''
      else PDict (map (\<lambda>(k, v). (k, redact_value v k)) kvs))"
| "redact_value (PList xs) key_hint =
     (if is_sensitive_key key_hint then PStr ''***''
      else PList (map (\<lambda>item. redact_value item key_hint) xs))"
| "redact_value (PTuple xs) key_hint =
     (if is_sensitive_key key_hint then PStr ''***''
      else PTuple (map (\<lambda>item. redact_value item key_hint) xs))"
| "redact_value v key_hint =
     (if is_sensitive_key key_hint then PStr ''***'' else v)"

definition to_text :: "python \<Rightarrow> pyval \<Rightarrow> string" where
  "to_text py v =
     (case v of
        PDict _ \<Rightarrow> json_dumps py v
      | PList _ \<Rightarrow> json_dumps py v
      | PTuple _ \<Rightarrow> json_dumps py v
      | _ \<Rightarrow> py_str (repr py) v)"

definition preview :: "python \<Rightarrow> pyval \<Rightarrow> int \<Rightarrow> string" where
  "preview py v limit =
     (let txt = to_text py v
      in if int (length txt) \<le> limit then txt
         else let hidden = int (length txt) - limit
              in slice_to limit txt @ ''... [truncated '' @ str_int hidden @ '' chars]'')"

text \<open>
  \<open>log\<close> writes a line to stderr when the debug flag is set and returns nothing; the
  lines written are not part of any result below and are left out.
\<close>

section \<open>errors.py and the collaborators\<close>

text \<open>
  errors.py is not among the sources. \<open>NPMError\<close> is taken from its uses: an exception
  class raised with a message and caught by class. \<open>Escaped c\<close> is an exception of the
  class named \<open>c\<close> that is no \<open>NPMError\<close> and that no handler of the code catches:
  the \<open>OSError\<close> of \<open>Path.read_text\<close> on a file that exists and cannot be read, the
  \<open>ValueError\<close> of \<open>json.loads\<close> that is no \<open>JSONDecodeError\<close>, an exception of
  \<open>httpx.request\<close> that is no \<open>httpx.HTTPError\<close>.
\<close>

datatype error = NPMError string | Escaped string

text \<open>
  The vault: \<open>keyring.get_password service name\<close> returns the stored value, None when
  there is none, or raises a \<open>KeyringError\<close> (\<open>Inl\<close>, with the text of the exception).
  The module variable \<open>keyring\<close> is None when the import failed.
\<close>

type_synonym keyring = "string \<Rightarrow> string \<Rightarrow> string + string option"

datatype file_state = Missing | Unreadable | Content string

text \<open>
  The process environment, the vault and the file system (a path as written, before
  \<open>expanduser\<close>).
\<close>

record world =
  environ :: "string \<rightharpoonup> string"
  keyring :: "keyring option"
  files :: "string \<Rightarrow> file_state"

section \<open>secrets\_store.py\<close>

definition SERVICE_NAME :: string where
  "SERVICE_NAME = ''npmctl''"

definition LEGACY_SERVICE_NAME :: string where
  "LEGACY_SERVICE_NAME = ''npm-cli''"

definition CF_TOKEN_KEY :: string where
  "CF_TOKEN_KEY = ''cloudflare_api_token''"

definition LOGIN_INFO_KEY :: string where
  "LOGIN_INFO_KEY = ''login_info''"

definition keyring_unavailable :: error where
  "keyring_unavailable =
     NPMError (''Secure storage backend unavailable. Install `keyring` and an OS keyring backend. '' @
               ''Fallback: install `keyrings.alt` in the npmctl environment '' @
               ''(for example `~/.npmctl/venv/bin/pip install keyrings.alt`).'')"

text \<open>\<open>_require_keyring\<close> raises when the module is missing; otherwise the module is there to call.\<close>

definition require_keyring :: "keyring option \<Rightarrow> error + keyring" where
  "require_keyring kr =
     (case kr of None \<Rightarrow> Inl keyring_unavailable | Some get_password \<Rightarrow> Inr get_password)"

definition keyring_backend_hint :: "string \<Rightarrow> string" where
  "keyring_backend_hint exc =
     (let message = lower exc
      in if contains ''no recommended backend was available'' message
         then '' Hint: install and run an OS keyring backend (Secret Service/KWallet), '' @
              ''or install `keyrings.alt` in the npmctl environment '' @
              ''(for example `~/.npmctl/venv/bin/pip install keyrings.alt`).''
         else [])"

definition read_failed :: "string \<Rightarrow> error" where
  "read_failed exc =
     NPMError (''Failed to read secret from keyring: '' @ exc @ keyring_backend_hint exc)"

text \<open>
  \<open>get_secret\<close> returns the lookups it made on the vault, in order, and its result.
\<close>

definition get_secret ::
  "keyring option \<Rightarrow> string \<Rightarrow> (string \<times> string) list \<times> (error + string option)" where
  "get_secret kr secret_name =
     (case require_keyring kr of
        Inl e \<Rightarrow> ([], Inl e)
      | Inr get_password \<Rightarrow>
          (case get_password SERVICE_NAME secret_name of
             Inl exc \<Rightarrow> ([(SERVICE_NAME, secret_name)], Inl (read_failed exc))
           | Inr val \<Rightarrow>
               if truthy (of_opt val) then ([(SERVICE_NAME, secret_name)], Inr val)
               else
                 (case get_password LEGACY_SERVICE_NAME secret_name of
                    Inl exc \<Rightarrow>
                      ([(SERVICE_NAME, secret_name), (LEGACY_SERVICE_NAME, secret_name)],
                       Inl (read_failed exc))
                  | Inr legacy \<Rightarrow>
                      ([(SERVICE_NAME, secret_name), (LEGACY_SERVICE_NAME, secret_name)],
                       Inr legacy))))"

definition get_login_info :: "python \<Rightarrow> keyring option \<Rightarrow> error + (string \<times> pyval) list" where
  "get_login_info py kr =
     (case snd (get_secret kr LOGIN_INFO_KEY) of
        Inl e \<Rightarrow> Inl e
      | Inr None \<Rightarrow> Inr []
      | Inr (Some raw) \<Rightarrow>
          if raw = [] then Inr []
          else
            (case json_loads py raw of
               JSONDecodeError \<Rightarrow> Inr []
             | ValueError \<Rightarrow> Inl (Escaped ''ValueError'')
             | Loaded parsed \<Rightarrow> (case parsed of PDict d \<Rightarrow> Inr d | _ \<Rightarrow> Inr [])))"

section \<open>config.py\<close>

definition LEGACY_CONFIG_PATH :: string where
  "LEGACY_CONFIG_PATH = ''~/.config/npm-cli/config.json''"

definition LEGACY_NPMCTL_CONFIG_PATH :: "world \<Rightarrow> string" where
  "LEGACY_NPMCTL_CONFIG_PATH w =
     (case environ w ''NPM_CLI_CONFIG'' of
        Some p \<Rightarrow> p
      | None \<Rightarrow> ''~/.config/npmctl/config.json'')"

definition load_json_file :: "python \<Rightarrow> world \<Rightarrow> string \<Rightarrow> error + (string \<times> pyval) list" where
  "load_json_file py w path =
     (case files w path of
        Missing \<Rightarrow> Inr []
      | Unreadable \<Rightarrow> Inl (Escaped ''OSError'')
      | Content txt \<Rightarrow>
          (case json_loads py txt of
             JSONDecodeError \<Rightarrow> Inr []
           | ValueError \<Rightarrow> Inl (Escaped ''ValueError'')
           | Loaded parsed \<Rightarrow> (case parsed of PDict d \<Rightarrow> Inr d | _ \<Rightarrow> Inr [])))"

text \<open>The loop of \<open>_load_legacy_login_info\<close> over its paths.\<close>

fun load_first :: "python \<Rightarrow> world \<Rightarrow> string list \<Rightarrow> error + (string \<times> pyval) list" where
  "load_first py w [] = Inr []"
| "load_first py w (path # paths) =
     (case load_json_file py w path of
        Inl e \<Rightarrow> Inl e
      | Inr loaded \<Rightarrow> if loaded \<noteq> [] then Inr loaded else load_first py w paths)"

definition load_legacy_login_info :: "python \<Rightarrow> world \<Rightarrow> error + (string \<times> pyval) list" where
  "load_legacy_login_info py w =
     load_first py w [LEGACY_NPMCTL_CONFIG_PATH w, LEGACY_CONFIG_PATH]"

text \<open>\<open>except NPMError\<close>: an error of that class becomes the empty dict, any other goes on.\<close>

definition load_keyring_login_info :: "python \<Rightarrow> world \<Rightarrow> error + (string \<times> pyval) list" where
  "load_keyring_login_info py w =
     (case get_login_info py (keyring w) of
        Inl (NPMError exc) \<Rightarrow> Inr []
      | Inl e \<Rightarrow> Inl e
      | Inr d \<Rightarrow> Inr d)"

definition missing_base_url :: error where
  "missing_base_url = NPMError ''Missing NPM base URL. Use --base-url or set NPM_BASE_URL.''"

definition missing_token :: error where
  "missing_token = NPMError ''Missing API token. Run `npmctl login` or set NPM_TOKEN.''"

definition resolve_base_url_and_token ::
  "python \<Rightarrow> world \<Rightarrow> string option \<Rightarrow> string option \<Rightarrow> bool \<Rightarrow> error + pyval \<times> pyval" where
  "resolve_base_url_and_token py w base_url token require_token =
     (case load_keyring_login_info py w of
        Inl e \<Rightarrow> Inl e
      | Inr keyring_login \<Rightarrow>
          (case load_legacy_login_info py w of
             Inl e \<Rightarrow> Inl e
           | Inr legacy_login \<Rightarrow>
               let resolved_base_url =
                     py_or (py_or (py_or (of_opt base_url) (of_opt (environ w ''NPM_BASE_URL'')))
                                  (dict_get keyring_login ''base_url''))
                           (dict_get legacy_login ''base_url'')
               in if \<not> truthy resolved_base_url then Inl missing_base_url
                  else
                    let resolved_token =
                          py_or (py_or (py_or (of_opt token) (of_opt (environ w ''NPM_TOKEN'')))
                                       (dict_get keyring_login ''token''))
                                (dict_get legacy_login ''token'')
                    in if require_token \<and> \<not> truthy resolved_token then Inl missing_token
                       else Inr (resolved_base_url, resolved_token)))"

section \<open>client.py\<close>

record NPMClient =
  base_url :: string
  token :: "string option"
  timeout_seconds :: int

text \<open>The arguments of one \<open>httpx.request\<close> call.\<close>

record Request =
  req_method :: string
  req_url :: string
  req_headers :: "(string \<times> string) list"
  req_json :: "(string \<times> pyval) list option"
  req_timeout :: int

text \<open>
  An \<open>httpx.Response\<close>: the status, the bytes of the body (\<open>content\<close>, which
  \<open>response.json()\<close> hands to \<open>json.loads\<close>), the body decoded with the charset of the
  response (\<open>text\<close>), and the header lines.
\<close>

record Response =
  status_code :: int
  response_content :: string
  response_text :: string
  response_headers :: "(string \<times> string) list"

text \<open>
  The network: \<open>httpx.request\<close> returns a response, raises an \<open>httpx.HTTPError\<close> (with
  the text of the exception), or raises an exception of another class (with its name),
  as \<open>httpx.InvalidURL\<close> is.
\<close>

datatype net_outcome = Answer Response | HTTPError string | OtherError string

type_synonym network = "Request \<Rightarrow> net_outcome"

text \<open>What a call of the pipeline leaves behind: the requests sent, and the result.\<close>

record outcome =
  sent :: "Request list"
  result :: "error + pyval"

definition rstrip :: "char \<Rightarrow> string \<Rightarrow> string" where
  "rstrip c s = rev (dropWhile (\<lambda>x. x = c) (rev s))"

definition join :: "string \<Rightarrow> string list \<Rightarrow> string" where
  "join sep xs = (case xs of [] \<Rightarrow> [] | y # ys \<Rightarrow> y @ concat (map (\<lambda>z. sep @ z) ys))"

text \<open>
  \<open>response.headers.get(name)\<close>: the lookup ignores the case of the name, and the values
  of a repeated header are joined with a comma and a space.
\<close>

definition header_get :: "(string \<times> string) list \<Rightarrow> string \<Rightarrow> string option" where
  "header_get hs name =
     (let vals = map snd (filter (\<lambda>(k, v). lower k = lower name) hs)
      in if vals = [] then None else Some (join '', '' vals))"

definition no_token_configured :: error where
  "no_token_configured = NPMError ''No API token configured. Run `npmctl login` first.''"

definition NPMClient_headers :: "NPMClient \<Rightarrow> bool \<Rightarrow> error + (string \<times> string) list" where
  "NPMClient_headers self auth_required =
     (let headers = [(''Content-Type'', ''application/json'')];
          without_token = (if auth_required then Inl no_token_configured else Inr headers)
      in case token self of
           None \<Rightarrow> without_token
         | Some t \<Rightarrow>
             if t = [] then without_token
             else Inr (headers @ [(''Authorization'', ''Bearer '' @ t)]))"

definition NPMClient_send_request ::
  "NPMClient \<Rightarrow> network \<Rightarrow> string \<Rightarrow> string \<Rightarrow> (string \<times> string) list \<Rightarrow>
   (string \<times> pyval) list option \<Rightarrow> Request \<times> (error + Response)" where
  "NPMClient_send_request self net method url headers json_body =
     (let req = \<lparr>req_method = method, req_url = url, req_headers = headers,
                 req_json = json_body, req_timeout = timeout_seconds self\<rparr>
      in case net req of
           Answer response \<Rightarrow> (req, Inr response)
         | HTTPError exc \<Rightarrow> (req, Inl (NPMError (''HTTP request failed: '' @ exc)))
         | OtherError c \<Rightarrow> (req, Inl (Escaped c)))"

definition NPMClient_parse_payload :: "python \<Rightarrow> Response \<Rightarrow> pyval" where
  "NPMClient_parse_payload py response =
     (case json_loads py (response_content response) of
        Loaded parsed \<Rightarrow> parsed
      | JSONDecodeError \<Rightarrow> PStr (response_text response)
      | ValueError \<Rightarrow> PStr (response_text response))"

definition NPMClient_error_message :: "python \<Rightarrow> pyval \<Rightarrow> pyval" where
  "NPMClient_error_message py payload =
     (case payload of
        PDict d \<Rightarrow>
          (case dict_get d ''error'' of
             PDict error_obj \<Rightarrow>
               py_or (dict_get error_obj ''message'') (PStr (py_str (repr py) (PDict error_obj)))
           | _ \<Rightarrow> py_or (dict_get d ''message'') (PStr (py_str (repr py) payload)))
      | _ \<Rightarrow> PStr (py_str (repr py) payload))"

text \<open>The \<open>NPMError\<close> that \<open>_raise_api_error\<close> raises; \<open>debug\<close> is \<open>is_debug()\<close>.\<close>

definition NPMClient_raise_api_error ::
  "python \<Rightarrow> bool \<Rightarrow> string \<Rightarrow> string \<Rightarrow> Response \<Rightarrow> pyval \<Rightarrow>
   (string \<times> pyval) list option \<Rightarrow> error" where
  "NPMClient_raise_api_error py debug method path response payload json_body =
     (let message = NPMClient_error_message py payload;
          request_id = header_get (response_headers response) ''x-request-id'';
          lines1 = [''API '' @ str_int (status_code response) @ '' '' @ method @ '' '' @ path @
                    '': '' @ py_str (repr py) message];
          lines2 = (case request_id of
                      Some r \<Rightarrow> if r \<noteq> [] then lines1 @ [''Request ID: '' @ r] else lines1
                    | None \<Rightarrow> lines1);
          lines3 =
            (if debug
             then let lines_a = lines2 @ [''Response payload:'',
                                          preview py (redact_value payload ''payload'') 1600]
                  in (case json_body of
                        Some b \<Rightarrow> lines_a @ [''Request payload:'',
                                              preview py (redact_value (PDict b) ''json_body'') 1600]
                      | None \<Rightarrow> lines_a)
             else lines2 @ [''Tip: rerun with --debug (or set NPM_CLI_DEBUG=1) for full logs.''])
      in NPMError (join [CHR 0x0A] lines3))"

definition NPMClient_request ::
  "python \<Rightarrow> bool \<Rightarrow> network \<Rightarrow> NPMClient \<Rightarrow> string \<Rightarrow> string \<Rightarrow>
   (string \<times> pyval) list option \<Rightarrow> bool \<Rightarrow> outcome" where
  "NPMClient_request py debug net self method path json_body auth_required =
     (case NPMClient_headers self auth_required of
        Inl e \<Rightarrow> \<lparr>sent = [], result = Inl e\<rparr>
      | Inr headers \<Rightarrow>
          let url = rstrip CHR ''/'' (base_url self) @ path
          in case NPMClient_send_request self net method url headers json_body of
               (req, Inl e) \<Rightarrow> \<lparr>sent = [req], result = Inl e\<rparr>
             | (req, Inr response) \<Rightarrow>
                 let payload = NPMClient_parse_payload py response
                 in if 400 \<le> status_code response
                    then \<lparr>sent = [req],
                          result = Inl (NPMClient_raise_api_error py debug method path response
                                          payload json_body)\<rparr>
                    else \<lparr>sent = [req], result = Inr payload\<rparr>)"

text \<open>
  The precedence of the error message as the specification words it, to compare with
  \<open>NPMClient_error_message\<close>: the message of a nested error object, else the top-level
  message, else the stringified body.
\<close>

definition spec_error_message :: "python \<Rightarrow> pyval \<Rightarrow> pyval" where
  "spec_error_message py payload =
     (let nested = (case payload of
                      PDict d \<Rightarrow>
                        (case dict_get d ''error'' of
                           PDict error_obj \<Rightarrow> dict_get error_obj ''message''
                         | _ \<Rightarrow> PNone)
                    | _ \<Rightarrow> PNone);
          top = (case payload of PDict d \<Rightarrow> dict_get d ''message'' | _ \<Rightarrow> PNone)
      in py_or (py_or nested top) (PStr (py_str (repr py) payload)))"

section \<open>Sample inputs\<close>

text \<open>Three JSON objects: an error body, a stored login record, a legacy config file.\<close>

definition not_found_body :: string where
  \<open>not_found_body = ''{"error":{"message":"Host not found"}}''\<close>

definition vault_record_text :: string where
  \<open>vault_record_text = ''{"base_url":"https://vault.example","token":"vault-token"}''\<close>

definition legacy_file_text :: string where
  \<open>legacy_file_text = ''{"base_url":"https://file.example","token":"file-token"}''\<close>

text \<open>An integer literal of 4301 digits: JSON, and more digits than \<open>int\<close> converts.\<close>

definition huge_integer_text :: string where
  "huge_integer_text = replicate 4301 CHR ''1''"

text \<open>
  The builtins on the few inputs the examples below give them: the texts above, the
  text \<open>[]\<close>, texts that are not JSON, and the printing of the empty dict.
\<close>

definition sample_python :: python where
  "sample_python =
     \<lparr>json_loads = (\<lambda>s.
        if s = not_found_body
        then Loaded (PDict [(''error'', PDict [(''message'', PStr ''Host not found'')])])
        else if s = vault_record_text
        then Loaded (PDict [(''base_url'', PStr ''https://vault.example''),
                            (''token'', PStr ''vault-token'')])
        else if s = legacy_file_text
        then Loaded (PDict [(''base_url'', PStr ''https://file.example''),
                            (''token'', PStr ''file-token'')])
        else if s = ''[]'' then Loaded (PList [])
        else if s = huge_integer_text then ValueError
        else JSONDecodeError),
      json_dumps = (\<lambda>v. if v = PList [] then ''[]'' else ''{}''),
      repr = (\<lambda>v. if v = PDict [] then ''{}'' else ''None'')\<rparr>"

text \<open>A machine where the environment, the vault and the legacy file all hold a login.\<close>

definition sample_world :: world where
  "sample_world =
     \<lparr>environ = [''NPM_BASE_URL'' \<mapsto> ''https://env.example'', ''NPM_TOKEN'' \<mapsto> ''env-token''],
      keyring = Some (\<lambda>service name.
        if service = ''npmctl'' \<and> name = ''login_info'' then Inr (Some vault_record_text)
        else Inr None),
      files = (\<lambda>path.
        if path = ''~/.config/npmctl/config.json'' then Content legacy_file_text
        else Missing)\<rparr>"

text \<open>A machine with nothing configured and no vault integration.\<close>

definition bare_world :: world where
  "bare_world = \<lparr>environ = Map.empty, keyring = None, files = (\<lambda>path. Missing)\<rparr>"

text \<open>A server that answers every request with the given status and body.\<close>

definition answering :: "int \<Rightarrow> string \<Rightarrow> network" where
  "answering status body =
     (\<lambda>req. Answer \<lparr>status_code = status, response_content = body, response_text = body,
                      response_headers = []\<rparr>)"

definition sample_client :: NPMClient where
  "sample_client =
     \<lparr>base_url = ''https://npm.example/'', token = Some ''abcdefghijklmnop'',
      timeout_seconds = 180\<rparr>"

section \<open>Properties of the helpers\<close>

lemma contains_iff: "contains sub s \<longleftrightarrow> (\<exists>p q. s = p @ sub @ q)"
proof (induction s)
  case Nil
  then show ?case by auto
next
  case (Cons c cs)
  show ?case
  proof
    assume "contains sub (c # cs)"
    then consider "take (length sub) (c # cs) = sub" | "contains sub cs" by auto
    then show "\<exists>p q. c # cs = p @ sub @ q"
    proof cases
      case 1
      then have "c # cs = [] @ sub @ drop (length sub) (c # cs)"
        by (metis append_Nil append_take_drop_id)
      then show ?thesis by blast
    next
      case 2
      with Cons.IH obtain p q where "cs = p @ sub @ q" by auto
      then have "c # cs = (c # p) @ sub @ q" by simp
      then show ?thesis by blast
    qed
  next
    assume "\<exists>p q. c # cs = p @ sub @ q"
    then obtain p q where e: "c # cs = p @ sub @ q" by auto
    show "contains sub (c # cs)"
    proof (cases p)
      case Nil
      with e have "take (length sub) (c # cs) = sub" by simp
      then show ?thesis by simp
    next
      case (Cons a p')
      with e have "cs = p' @ sub @ q" by simp
      with Cons.IH have "contains sub cs" by blast
      then show ?thesis by simp
    qed
  qed
qed

lemma is_sensitive_key_iff:
  "is_sensitive_key k \<longleftrightarrow> (\<exists>term \<in> set SENSITIVE_KEYS. \<exists>p q. lower k = p @ term @ q)"
  by (simp add: is_sensitive_key_def Let_def list_ex_iff contains_iff)

lemma str_int_400: "str_int 400 = ''400''"
  by code_simp

lemma str_int_404: "str_int 404 = ''404''"
  by code_simp

lemma or_chain:
  "py_or (py_or (py_or a b) c) d = (case find truthy [a, b, c, d] of Some v \<Rightarrow> v | None \<Rightarrow> d)"
  by (simp add: py_or_def)

lemma or_chain_truthy:
  "truthy (py_or (py_or (py_or a b) c) d) \<longleftrightarrow> find truthy [a, b, c, d] \<noteq> None"
  by (simp add: py_or_def)

lemma join_Cons: "join sep (x # xs) = x @ concat (map (\<lambda>z. sep @ z) xs)"
  by (simp add: join_def)

section \<open>Masking\<close>

lemma mask_secret_stars: "mask_secret ''***'' = ''***''"
  by (simp add: mask_secret_def)

lemma mask_secret_idem: "mask_secret (mask_secret s) = mask_secret s"
  by (auto simp: mask_secret_def slice_to_def slice_last_def)

lemma split_11:
  assumes "length s = 11"
  shows "s = take 4 s @ take 3 (drop 4 s) @ drop 7 s"
proof -
  have "take 3 (drop 4 s) @ drop 7 s = drop 4 s"
    using append_take_drop_id [of 3 "drop 4 s"] by simp
  then have "take 4 s @ take 3 (drop 4 s) @ drop 7 s = take 4 s @ drop 4 s" by simp
  then show ?thesis by simp
qed

text \<open>The strings masking leaves as they are: the mask \<open>***\<close> and the 11-character
  strings with \<open>...\<close> in the middle.\<close>

lemma mask_secret_fixed:
  "mask_secret s = s \<longleftrightarrow> s = ''***'' \<or> (length s = 11 \<and> take 3 (drop 4 s) = ''...'')"
proof (cases "length s \<le> 8")
  case True
  then show ?thesis by (auto simp: mask_secret_def)
next
  case False
  then have m: "mask_secret s = take 4 s @ ''...'' @ drop (length s - 4) s"
    by (auto simp: mask_secret_def slice_to_def slice_last_def)
  show ?thesis
  proof
    assume e: "mask_secret s = s"
    from False have "length (mask_secret s) = 11" unfolding m by simp
    with e have l: "length s = 11" by simp
    from e m have "s = take 4 s @ ''...'' @ drop (length s - 4) s" by simp
    then have "drop 4 s = drop 4 (take 4 s @ ''...'' @ drop (length s - 4) s)" by simp
    with l have "drop 4 s = ''...'' @ drop 7 s" by simp
    then have "take 3 (drop 4 s) = ''...''" by simp
    with l show "s = ''***'' \<or> (length s = 11 \<and> take 3 (drop 4 s) = ''...'')" by simp
  next
    assume "s = ''***'' \<or> (length s = 11 \<and> take 3 (drop 4 s) = ''...'')"
    with False have l: "length s = 11" and d: "take 3 (drop 4 s) = ''...''" by auto
    from split_11 [OF l] d have "s = take 4 s @ ''...'' @ drop 7 s" by simp
    with m l show "mask_secret s = s" by simp
  qed
qed

text \<open>
  C4. A string of at most 8 characters masks to the three characters \<open>***\<close>. A longer
  string masks to its first four characters, the ellipsis \<open>...\<close>, and its last four
  characters: the output has 11 characters, its first four and its last four are those
  of the input.
\<close>

theorem mask_secret_shape:
  "(length s \<le> 8 \<longrightarrow> mask_secret s = ''***'' \<and> length (mask_secret s) = 3) \<and>
   (8 < length s \<longrightarrow>
      mask_secret s = take 4 s @ ''...'' @ drop (length s - 4) s \<and>
      take 4 (mask_secret s) = take 4 s \<and>
      drop (length (mask_secret s) - 4) (mask_secret s) = drop (length s - 4) s \<and>
      take 3 (drop 4 (mask_secret s)) = ''...'' \<and>
      length (mask_secret s) = 11)"
  by (auto simp: mask_secret_def slice_to_def slice_last_def)

theorem mask_secret_shape_witness:
  "length ''hunter2'' \<le> 8 \<and> mask_secret ''hunter2'' = ''***'' \<and>
   8 < length ''abcdefghijkl'' \<and> mask_secret ''abcdefghijkl'' = ''abcd...ijkl''"
  using mask_secret_shape [of "''hunter2''"] mask_secret_shape [of "''abcdefghijkl''"]
  by simp

section \<open>Redaction\<close>

text \<open>
  C2. Redacting twice under the same key hint gives what redacting once gives, for every
  value (scalars, strings, lists, tuples and dicts, nested to any depth) and every hint.
\<close>

theorem redact_value_idempotent:
  "redact_value (redact_value x k) k = redact_value x k"
  by (induction x k rule: redact_value.induct) (auto simp: mask_secret_idem mask_secret_stars)

lemma redact_value_example:
  "redact_value
     (PDict [(''meta'', PDict [(''dns_provider_credentials'', PStr ''dns_cloudflare_api_token = abc''),
                               (''key_type'', PStr ''rsa'')]),
             (''domain_names'', PList [PStr ''a.example''])]) ''json_body'' =
   PDict [(''meta'', PDict [(''dns_provider_credentials'', PStr ''dns_... abc''),
                            (''key_type'', PStr ''rsa'')]),
          (''domain_names'', PList [PStr ''a.example''])]"
  by code_simp

theorem redact_value_idempotent_witness:
  "redact_value
     (redact_value
        (PDict [(''meta'', PDict [(''dns_provider_credentials'', PStr ''dns_cloudflare_api_token = abc''),
                                  (''key_type'', PStr ''rsa'')]),
                (''domain_names'', PList [PStr ''a.example''])]) ''json_body'') ''json_body'' =
   PDict [(''meta'', PDict [(''dns_provider_credentials'', PStr ''dns_... abc''),
                            (''key_type'', PStr ''rsa'')]),
          (''domain_names'', PList [PStr ''a.example''])]"
  using redact_value_idempotent
    [of "PDict [(''meta'', PDict [(''dns_provider_credentials'', PStr ''dns_cloudflare_api_token = abc''),
                                   (''key_type'', PStr ''rsa'')]),
                (''domain_names'', PList [PStr ''a.example''])]" "''json_body''"]
  by (simp only: redact_value_example)

text \<open>
  C3, as the code has it. Under a key whose lower-cased name contains a denylist term,
  redaction returns the value it was given exactly when that value is a string masking
  leaves alone: the mask \<open>***\<close>, or an 11-character string whose characters 5 to 7 are
  \<open>...\<close> (the shape of a masked preview). Every other value comes back changed. Inside a
  dict redacted under a hint that is not sensitive, each entry is redacted under its own
  key.
\<close>

theorem redact_value_sensitive:
  assumes "term \<in> set SENSITIVE_KEYS" and "lower k = p @ term @ q"
  shows "(redact_value v k = v \<longleftrightarrow>
           (\<exists>s. v = PStr s \<and> (s = ''***'' \<or> (length s = 11 \<and> take 3 (drop 4 s) = ''...'')))) \<and>
         (\<not> is_sensitive_key hint \<longrightarrow>
            redact_value (PDict (before @ [(k, v)] @ after)) hint =
              PDict (map (\<lambda>(k', v'). (k', redact_value v' k')) before @ [(k, redact_value v k)] @
                     map (\<lambda>(k', v'). (k', redact_value v' k')) after))"
proof -
  from assms have sens: "is_sensitive_key k"
    unfolding is_sensitive_key_iff by blast
  then have "redact_value v k = v \<longleftrightarrow>
      (\<exists>s. v = PStr s \<and> (s = ''***'' \<or> (length s = 11 \<and> take 3 (drop 4 s) = ''...'')))"
    by (cases v) (auto simp: mask_secret_fixed)
  then show ?thesis by simp
qed

lemma lower_example: "lower ''DB_Password_1'' = ''db_password_1''"
  by code_simp

theorem redact_value_sensitive_witness:
  "''password'' \<in> set SENSITIVE_KEYS \<and> lower ''DB_Password_1'' = ''db_'' @ ''password'' @ ''_1'' \<and>
   redact_value (PStr ''correct horse'') ''DB_Password_1'' \<noteq> PStr ''correct horse'' \<and>
   redact_value (PInt 1234) ''DB_Password_1'' \<noteq> PInt 1234 \<and>
   redact_value (PStr ''***'') ''DB_Password_1'' = PStr ''***''"
  using redact_value_sensitive [of "''password''" "''DB_Password_1''" "''db_''" "''_1''" "PStr ''correct horse''"]
    redact_value_sensitive [of "''password''" "''DB_Password_1''" "''db_''" "''_1''" "PInt 1234"]
    redact_value_sensitive [of "''password''" "''DB_Password_1''" "''db_''" "''_1''" "PStr ''***''"]
  by (simp add: SENSITIVE_KEYS_def lower_example)

text \<open>
  C3 as stated fails: the 11-character secret \<open>abcd...wxyz\<close> under the key \<open>password\<close>
  is not the mask \<open>***\<close>, and one redaction pass returns it unchanged.
\<close>

theorem redact_value_sensitive_counterexample:
  "is_sensitive_key ''password'' \<and> PStr ''abcd...wxyz'' \<noteq> PStr ''***'' \<and>
   redact_value (PStr ''abcd...wxyz'') ''password'' = PStr ''abcd...wxyz''"
  by code_simp

section \<open>Preview\<close>

text \<open>
  C9. When the serialized text of a value is no longer than the limit, \<open>preview\<close>
  returns it unchanged. When it is longer than a limit of zero or more characters,
  \<open>preview\<close> returns its first limit characters followed by the annotation
  \<open>... [truncated N chars]\<close>, N being the length of the text minus the limit. A text of
  2000 characters under the limit 1600 gives its first 1600 characters and the
  annotation with 400.
\<close>

theorem preview_truncates:
  "(int (length (to_text py v)) \<le> limit \<longrightarrow> preview py v limit = to_text py v) \<and>
   (0 \<le> limit \<and> limit < int (length (to_text py v)) \<longrightarrow>
      preview py v limit =
        take (nat limit) (to_text py v) @
        ''... [truncated '' @ str_int (int (length (to_text py v)) - limit) @ '' chars]'' \<and>
      length (take (nat limit) (to_text py v)) = nat limit) \<and>
   (length (to_text py v) = 2000 \<longrightarrow>
      preview py v 1600 = take 1600 (to_text py v) @ ''... [truncated 400 chars]'' \<and>
      length (take 1600 (to_text py v)) = 1600)"
  by (auto simp: preview_def Let_def slice_to_def str_int_400)

lemma sample_dumps: "json_dumps sample_python (PList []) = ''[]''"
  by (simp add: sample_python_def)

theorem preview_truncates_witness:
  "length (to_text sample_python (PStr (replicate 2000 CHR ''x''))) = 2000 \<and>
   preview sample_python (PStr (replicate 2000 CHR ''x'')) 1600 =
     replicate 1600 CHR ''x'' @ ''... [truncated 400 chars]'' \<and>
   int (length (to_text sample_python (PList []))) \<le> 1600 \<and>
   preview sample_python (PList []) 1600 = ''[]''"
  using preview_truncates [of sample_python "PStr (replicate 2000 CHR ''x'')" 1600]
    preview_truncates [of sample_python "PList []" 1600]
  by (simp add: to_text_def py_str_def sample_dumps str_int_400)

section \<open>The secret store\<close>

lemma get_secret_error: "snd (get_secret kr k) = Inl e \<Longrightarrow> \<exists>m. e = NPMError m"
  by (auto simp: get_secret_def require_keyring_def keyring_unavailable_def read_failed_def
      split: option.splits sum.splits if_splits)

lemma get_login_info_error:
  "get_login_info py kr = Inl e \<Longrightarrow> (\<exists>m. e = NPMError m) \<or> e = Escaped ''ValueError''"
  by (auto simp: get_login_info_def
      split: sum.splits option.splits if_splits pyval.splits loads_outcome.splits
      dest: get_secret_error)

text \<open>
  C8, as the code has it. With the vault integration loaded and the lookup in the
  current namespace answering, \<open>get_secret\<close> looks the key up in the current namespace
  first. A non-empty value there is returned, and the legacy namespace is not consulted.
  When the current namespace holds nothing or the empty string, the legacy namespace is
  looked up next and its answer is returned as it is: a non-empty value, the empty
  string, or nothing. When both namespaces hold different values and the current one is
  not empty, the current one is returned.
\<close>

theorem get_secret_precedence:
  assumes "kr = Some get_password" and "get_password SERVICE_NAME k = Inr cur"
  shows "(cur \<noteq> None \<and> cur \<noteq> Some [] \<longrightarrow> get_secret kr k = ([(SERVICE_NAME, k)], Inr cur)) \<and>
     ((cur = None \<or> cur = Some []) \<and> get_password LEGACY_SERVICE_NAME k = Inr leg \<longrightarrow>
        get_secret kr k = ([(SERVICE_NAME, k), (LEGACY_SERVICE_NAME, k)], Inr leg)) \<and>
     (cur = Some a \<and> a \<noteq> [] \<and> get_password LEGACY_SERVICE_NAME k = Inr (Some b) \<and> a \<noteq> b \<longrightarrow>
        snd (get_secret kr k) = Inr (Some a))"
  using assms by (auto simp: get_secret_def require_keyring_def of_opt_def split: option.splits)

theorem get_secret_precedence_witness:
  "get_secret (Some (\<lambda>service name. if service = ''npmctl'' then Inr (Some ''new'') else Inr (Some ''old'')))
     ''cloudflare_api_token'' = ([(''npmctl'', ''cloudflare_api_token'')], Inr (Some ''new'')) \<and>
   get_secret (Some (\<lambda>service name. if service = ''npmctl'' then Inr None else Inr (Some ''old'')))
     ''cloudflare_api_token'' =
     ([(''npmctl'', ''cloudflare_api_token''), (''npm-cli'', ''cloudflare_api_token'')], Inr (Some ''old''))"
  using get_secret_precedence
    [of "Some (\<lambda>service name. if service = ''npmctl'' then Inr (Some ''new'') else Inr (Some ''old''))"
        "\<lambda>service name. if service = ''npmctl'' then Inr (Some ''new'') else Inr (Some ''old'')"
        "''cloudflare_api_token''" "Some ''new''" "Some ''old''" "''new''" "''old''"]
    get_secret_precedence
    [of "Some (\<lambda>service name. if service = ''npmctl'' then Inr None else Inr (Some ''old''))"
        "\<lambda>service name. if service = ''npmctl'' then Inr None else Inr (Some ''old'')"
        "''cloudflare_api_token''" None "Some ''old''" "''new''" "''old''"]
  by (simp add: SERVICE_NAME_def LEGACY_SERVICE_NAME_def)

text \<open>
  C8 as stated fails twice. With nothing in the current namespace and the empty string
  in the legacy one there is no non-empty hit, and the result is the empty string, not
  an absent value. With the empty string in the current namespace and \<open>old\<close> in the
  legacy one, both hold the key with different values, and the legacy value is returned.
\<close>

theorem get_secret_counterexample:
  "snd (get_secret (Some (\<lambda>service name. if service = ''npmctl'' then Inr None else Inr (Some [])))
          ''cloudflare_api_token'') = Inr (Some []) \<and>
   snd (get_secret (Some (\<lambda>service name. if service = ''npmctl'' then Inr (Some []) else Inr (Some ''old'')))
          ''cloudflare_api_token'') = Inr (Some ''old'')"
  by (simp add: get_secret_def require_keyring_def SERVICE_NAME_def LEGACY_SERVICE_NAME_def of_opt_def)

section \<open>Credential resolution\<close>

lemma load_keyring_login_info_caught:
  "get_login_info py (keyring w) = Inl (NPMError m) \<Longrightarrow> load_keyring_login_info py w = Inr []"
  by (simp add: load_keyring_login_info_def)

lemma load_keyring_login_info_escapes:
  "get_login_info py (keyring w) = Inl (Escaped c) \<Longrightarrow>
   load_keyring_login_info py w = Inl (Escaped c)"
  by (simp add: load_keyring_login_info_def)

lemma resolve_keyring_escapes:
  "load_keyring_login_info py w = Inl e \<Longrightarrow>
   resolve_base_url_and_token py w explicit_url explicit_token require_token = Inl e"
  by (simp add: resolve_base_url_and_token_def)

lemma resolve_legacy_escapes:
  "load_keyring_login_info py w = Inr vault \<Longrightarrow> load_legacy_login_info py w = Inl e \<Longrightarrow>
   resolve_base_url_and_token py w explicit_url explicit_token require_token = Inl e"
  by (simp add: resolve_base_url_and_token_def)

lemma vault_record_text_nonempty: "vault_record_text \<noteq> []"
  by (simp add: vault_record_text_def)

lemma huge_integer_text_differs: "length s \<noteq> 4301 \<Longrightarrow> s \<noteq> huge_integer_text"
  by (auto simp: huge_integer_text_def)

lemma sample_loads_vault:
  "json_loads sample_python vault_record_text =
     Loaded (PDict [(''base_url'', PStr ''https://vault.example''), (''token'', PStr ''vault-token'')])"
  by (simp add: sample_python_def vault_record_text_def not_found_body_def)

lemma sample_loads_file:
  "json_loads sample_python legacy_file_text =
     Loaded (PDict [(''base_url'', PStr ''https://file.example''), (''token'', PStr ''file-token'')])"
  by (simp add: sample_python_def vault_record_text_def not_found_body_def legacy_file_text_def)

lemma sample_keyring_login:
  "keyring w = keyring sample_world \<Longrightarrow>
   load_keyring_login_info sample_python w =
     Inr [(''base_url'', PStr ''https://vault.example''), (''token'', PStr ''vault-token'')]"
  by (simp add: load_keyring_login_info_def get_login_info_def get_secret_def require_keyring_def sample_world_def
      SERVICE_NAME_def LOGIN_INFO_KEY_def of_opt_def sample_loads_vault
      vault_record_text_nonempty)

lemma sample_legacy_login:
  "files w = files sample_world \<Longrightarrow> environ w ''NPM_CLI_CONFIG'' = None \<Longrightarrow>
   load_legacy_login_info sample_python w =
     Inr [(''base_url'', PStr ''https://file.example''), (''token'', PStr ''file-token'')]"
  by (simp add: load_legacy_login_info_def load_json_file_def LEGACY_NPMCTL_CONFIG_PATH_def
      sample_world_def sample_loads_file)

lemma bare_keyring_login:
  "keyring w = None \<Longrightarrow> load_keyring_login_info py w = Inr []"
  by (simp add: load_keyring_login_info_def get_login_info_def get_secret_def require_keyring_def
      keyring_unavailable_def)

lemma bare_legacy_login:
  "files w = (\<lambda>path. Missing) \<Longrightarrow> load_legacy_login_info py w = Inr []"
  by (simp add: load_legacy_login_info_def load_json_file_def)

text \<open>
  C1, as the code has it. Once the vault record and the legacy file have been loaded
  (no exception escaped while they were read and decoded), each of base URL and token
  is the first non-empty value among the explicit argument, the environment variable,
  the vault record and the legacy file, in that order. When no source yields a base URL
  the call fails with the missing-base-URL error, whatever the token sources hold. When
  a base URL is resolved, \<open>require_token\<close> is true and no source yields a token, the
  call fails with the missing-token error.
\<close>

theorem resolve_precedence:
  assumes "load_keyring_login_info py w = Inr vault"
    and "load_legacy_login_info py w = Inr legacy"
  shows "resolve_base_url_and_token py w explicit_url explicit_token require_token =
     (case find truthy [of_opt explicit_url, of_opt (environ w ''NPM_BASE_URL''),
                        dict_get vault ''base_url'', dict_get legacy ''base_url''] of
        None \<Rightarrow> Inl missing_base_url
      | Some address \<Rightarrow>
          (case find truthy [of_opt explicit_token, of_opt (environ w ''NPM_TOKEN''),
                             dict_get vault ''token'', dict_get legacy ''token''] of
             Some tok \<Rightarrow> Inr (address, tok)
           | None \<Rightarrow> if require_token then Inl missing_token
                     else Inr (address, dict_get legacy ''token'')))"
  using assms
  by (simp add: resolve_base_url_and_token_def Let_def or_chain or_chain_truthy
      split: option.splits)

theorem resolve_precedence_witness:
  "resolve_base_url_and_token sample_python sample_world
     (Some ''https://explicit.example'') (Some ''explicit-token'') True =
     Inr (PStr ''https://explicit.example'', PStr ''explicit-token'') \<and>
   resolve_base_url_and_token sample_python sample_world None None True =
     Inr (PStr ''https://env.example'', PStr ''env-token'') \<and>
   resolve_base_url_and_token sample_python (sample_world\<lparr>environ := Map.empty\<rparr>) None None True =
     Inr (PStr ''https://vault.example'', PStr ''vault-token'') \<and>
   resolve_base_url_and_token sample_python (sample_world\<lparr>environ := Map.empty, keyring := None\<rparr>)
     None None True =
     Inr (PStr ''https://file.example'', PStr ''file-token'') \<and>
   resolve_base_url_and_token sample_python bare_world (Some ''https://explicit.example'') None True =
     Inl missing_token"
proof -
  have k1: "load_keyring_login_info sample_python sample_world =
      Inr [(''base_url'', PStr ''https://vault.example''), (''token'', PStr ''vault-token'')]"
    by (simp add: sample_keyring_login)
  have l1: "load_legacy_login_info sample_python sample_world =
      Inr [(''base_url'', PStr ''https://file.example''), (''token'', PStr ''file-token'')]"
    by (simp add: sample_legacy_login sample_world_def)
  have k2: "load_keyring_login_info sample_python (sample_world\<lparr>environ := Map.empty\<rparr>) =
      Inr [(''base_url'', PStr ''https://vault.example''), (''token'', PStr ''vault-token'')]"
    by (simp add: sample_keyring_login)
  have l2: "load_legacy_login_info sample_python (sample_world\<lparr>environ := Map.empty\<rparr>) =
      Inr [(''base_url'', PStr ''https://file.example''), (''token'', PStr ''file-token'')]"
    by (simp add: sample_legacy_login)
  have k3: "load_keyring_login_info sample_python
      (sample_world\<lparr>environ := Map.empty, keyring := None\<rparr>) = Inr []"
    by (simp add: bare_keyring_login)
  have l3: "load_legacy_login_info sample_python
      (sample_world\<lparr>environ := Map.empty, keyring := None\<rparr>) =
      Inr [(''base_url'', PStr ''https://file.example''), (''token'', PStr ''file-token'')]"
    by (simp add: sample_legacy_login)
  have k4: "load_keyring_login_info sample_python bare_world = Inr []"
    by (simp add: bare_keyring_login bare_world_def)
  have l4: "load_legacy_login_info sample_python bare_world = Inr []"
    by (simp add: bare_legacy_login bare_world_def)
  show ?thesis
    using
      resolve_precedence [OF k1 l1, of "Some ''https://explicit.example''" "Some ''explicit-token''" True]
      resolve_precedence [OF k1 l1, of None None True]
      resolve_precedence [OF k2 l2, of None None True]
      resolve_precedence [OF k3 l3, of None None True]
      resolve_precedence [OF k4 l4, of "Some ''https://explicit.example''" None True]
    by (simp add: sample_world_def bare_world_def of_opt_def dict_get_def)
qed

text \<open>
  C1 as stated fails: with nothing configured no source yields a token and
  \<open>require_token\<close> is true, yet the call fails with the missing-base-URL error and not
  with the missing-token error.
\<close>

theorem resolve_counterexample:
  "load_keyring_login_info sample_python bare_world = Inr [] \<and>
   load_legacy_login_info sample_python bare_world = Inr [] \<and>
   environ bare_world ''NPM_TOKEN'' = None \<and>
   resolve_base_url_and_token sample_python bare_world None None True = Inl missing_base_url \<and>
   resolve_base_url_and_token sample_python bare_world None None True \<noteq> Inl missing_token"
  by (simp add: resolve_base_url_and_token_def bare_keyring_login bare_legacy_login bare_world_def
      of_opt_def dict_get_def py_or_def missing_base_url_def missing_token_def)

lemma sample_loads_other:
  "json_loads sample_python ''not json'' = JSONDecodeError"
  "json_loads sample_python ''OK'' = JSONDecodeError"
  "json_loads sample_python ''[]'' = Loaded (PList [])"
  by (simp_all add: sample_python_def vault_record_text_def not_found_body_def
      legacy_file_text_def huge_integer_text_differs)

lemma sample_loads_huge: "json_loads sample_python huge_integer_text = ValueError"
proof -
  have "not_found_body \<noteq> huge_integer_text" "vault_record_text \<noteq> huge_integer_text"
    "legacy_file_text \<noteq> huge_integer_text" "''[]'' \<noteq> huge_integer_text"
    by (rule huge_integer_text_differs,
        simp add: not_found_body_def vault_record_text_def legacy_file_text_def)+
  then show ?thesis by (simp add: sample_python_def eq_commute [of huge_integer_text])
qed

lemma huge_integer_text_nonempty: "huge_integer_text \<noteq> []"
  by (simp add: huge_integer_text_def)

lemma bare_world_simps:
  "environ bare_world = Map.empty" "keyring bare_world = None"
  "files bare_world = (\<lambda>path. Missing)"
  by (simp_all add: bare_world_def)

text \<open>
  C10, as the code has it. An \<open>NPMError\<close> raised while the vault record is read makes
  the vault source the empty dict; this covers the missing vault integration and a
  \<open>KeyringError\<close> of the backend. Resolution then goes on with the explicit, environment
  and legacy-file values, and it returns them whenever the legacy file loads, they hold
  a base URL and, if a token is required, a token. A stored record on which
  \<open>json.loads\<close> raises \<open>JSONDecodeError\<close>, or which decodes to a value that is no dict, is
  the empty dict and no error.
\<close>

theorem keyring_failure_tolerated:
  "(get_login_info py (keyring w) = Inl (NPMError m) \<longrightarrow> load_keyring_login_info py w = Inr []) \<and>
   (keyring w = None \<longrightarrow>
      get_login_info py (keyring w) = Inl keyring_unavailable \<and>
      load_keyring_login_info py w = Inr []) \<and>
   (keyring w = Some get_password \<and> get_password SERVICE_NAME LOGIN_INFO_KEY = Inl exc \<longrightarrow>
      get_login_info py (keyring w) = Inl (read_failed exc) \<and>
      load_keyring_login_info py w = Inr []) \<and>
   (get_login_info py (keyring w) = Inl (NPMError m) \<and>
    load_legacy_login_info py w = Inr legacy \<and>
    truthy (py_or (py_or (of_opt explicit_url) (of_opt (environ w ''NPM_BASE_URL'')))
                  (dict_get legacy ''base_url'')) \<and>
    (require_token \<longrightarrow>
       truthy (py_or (py_or (of_opt explicit_token) (of_opt (environ w ''NPM_TOKEN'')))
                     (dict_get legacy ''token''))) \<longrightarrow>
      resolve_base_url_and_token py w explicit_url explicit_token require_token =
        Inr (py_or (py_or (of_opt explicit_url) (of_opt (environ w ''NPM_BASE_URL'')))
                   (dict_get legacy ''base_url''),
             py_or (py_or (of_opt explicit_token) (of_opt (environ w ''NPM_TOKEN'')))
                   (dict_get legacy ''token''))) \<and>
   (snd (get_secret (keyring w) LOGIN_INFO_KEY) = Inr (Some raw) \<and>
    (json_loads py raw = JSONDecodeError \<or>
     (json_loads py raw = Loaded v \<and> (\<forall>d. v \<noteq> PDict d))) \<longrightarrow>
      get_login_info py (keyring w) = Inr [] \<and> load_keyring_login_info py w = Inr [])"
proof (intro conjI impI)
  assume "get_login_info py (keyring w) = Inl (NPMError m)"
  then show "load_keyring_login_info py w = Inr []"
    by (rule load_keyring_login_info_caught)
next
  assume a: "keyring w = None"
  then show g: "get_login_info py (keyring w) = Inl keyring_unavailable"
    by (simp add: get_login_info_def get_secret_def require_keyring_def)
  then show "load_keyring_login_info py w = Inr []"
    by (simp add: load_keyring_login_info_def keyring_unavailable_def)
next
  assume a: "keyring w = Some get_password \<and> get_password SERVICE_NAME LOGIN_INFO_KEY = Inl exc"
  then show g: "get_login_info py (keyring w) = Inl (read_failed exc)"
    by (simp add: get_login_info_def get_secret_def require_keyring_def)
  then show "load_keyring_login_info py w = Inr []"
    by (simp add: load_keyring_login_info_def read_failed_def)
next
  assume a: "get_login_info py (keyring w) = Inl (NPMError m) \<and>
    load_legacy_login_info py w = Inr legacy \<and>
    truthy (py_or (py_or (of_opt explicit_url) (of_opt (environ w ''NPM_BASE_URL'')))
                  (dict_get legacy ''base_url'')) \<and>
    (require_token \<longrightarrow>
       truthy (py_or (py_or (of_opt explicit_token) (of_opt (environ w ''NPM_TOKEN'')))
                     (dict_get legacy ''token'')))"
  then have k: "load_keyring_login_info py w = Inr []"
    by (simp add: load_keyring_login_info_caught)
  have n: "\<And>x y. py_or (py_or x (dict_get [] ''base_url'')) y = py_or x y"
    "\<And>x y. py_or (py_or x (dict_get [] ''token'')) y = py_or x y"
    by (simp_all add: py_or_def dict_get_def)
  from a show "resolve_base_url_and_token py w explicit_url explicit_token require_token =
        Inr (py_or (py_or (of_opt explicit_url) (of_opt (environ w ''NPM_BASE_URL'')))
                   (dict_get legacy ''base_url''),
             py_or (py_or (of_opt explicit_token) (of_opt (environ w ''NPM_TOKEN'')))
                   (dict_get legacy ''token''))"
    by (simp add: resolve_base_url_and_token_def k n Let_def)
next
  assume a: "snd (get_secret (keyring w) LOGIN_INFO_KEY) = Inr (Some raw) \<and>
    (json_loads py raw = JSONDecodeError \<or>
     (json_loads py raw = Loaded v \<and> (\<forall>d. v \<noteq> PDict d)))"
  then show g: "get_login_info py (keyring w) = Inr []"
    by (auto simp: get_login_info_def split: pyval.splits)
  then show "load_keyring_login_info py w = Inr []"
    by (simp add: load_keyring_login_info_def)
qed

theorem keyring_failure_tolerated_witness:
  "get_login_info sample_python
     (keyring (bare_world\<lparr>environ := [''NPM_BASE_URL'' \<mapsto> ''https://env.example'']\<rparr>)) =
     Inl keyring_unavailable \<and>
   resolve_base_url_and_token sample_python
     (bare_world\<lparr>environ := [''NPM_BASE_URL'' \<mapsto> ''https://env.example'']\<rparr>)
     None (Some ''explicit-token'') True =
     Inr (PStr ''https://env.example'', PStr ''explicit-token'') \<and>
   load_keyring_login_info sample_python
     (bare_world\<lparr>keyring := Some (\<lambda>service name. Inl ''No recommended backend was available'')\<rparr>) =
     Inr [] \<and>
   get_login_info sample_python
     (keyring (bare_world\<lparr>keyring := Some (\<lambda>service name. Inr (Some ''not json''))\<rparr>)) = Inr [] \<and>
   get_login_info sample_python
     (keyring (bare_world\<lparr>keyring := Some (\<lambda>service name. Inr (Some ''[]''))\<rparr>)) = Inr []"
proof -
  have l: "load_legacy_login_info sample_python
      (bare_world\<lparr>environ := [''NPM_BASE_URL'' \<mapsto> ''https://env.example'']\<rparr>) = Inr []"
    by (simp add: bare_legacy_login bare_world_simps)
  have u: "keyring_unavailable = NPMError
      (''Secure storage backend unavailable. Install `keyring` and an OS keyring backend. '' @
       ''Fallback: install `keyrings.alt` in the npmctl environment '' @
       ''(for example `~/.npmctl/venv/bin/pip install keyrings.alt`).'')"
    by (simp add: keyring_unavailable_def)
  have a: "get_login_info sample_python
       (keyring (bare_world\<lparr>environ := [''NPM_BASE_URL'' \<mapsto> ''https://env.example'']\<rparr>)) =
       Inl keyring_unavailable \<and>
     resolve_base_url_and_token sample_python
       (bare_world\<lparr>environ := [''NPM_BASE_URL'' \<mapsto> ''https://env.example'']\<rparr>)
       None (Some ''explicit-token'') True =
       Inr (PStr ''https://env.example'', PStr ''explicit-token'')"
    using keyring_failure_tolerated
      [where py = sample_python
         and w = "bare_world\<lparr>environ := [''NPM_BASE_URL'' \<mapsto> ''https://env.example'']\<rparr>"
         and m = "''Secure storage backend unavailable. Install `keyring` and an OS keyring backend. '' @
                  ''Fallback: install `keyrings.alt` in the npmctl environment '' @
                  ''(for example `~/.npmctl/venv/bin/pip install keyrings.alt`).''"
         and get_password = "\<lambda>service name. Inr None" and exc = "[]"
         and legacy = "[]" and explicit_url = None and explicit_token = "Some ''explicit-token''"
         and require_token = True and raw = "[]" and v = PNone]
    unfolding u [symmetric]
    by (simp add: l bare_world_simps of_opt_def dict_get_def py_or_def)
  have b: "load_keyring_login_info sample_python
      (bare_world\<lparr>keyring := Some (\<lambda>service name. Inl ''No recommended backend was available'')\<rparr>) =
      Inr []"
    using keyring_failure_tolerated
      [where py = sample_python
         and w = "bare_world\<lparr>keyring := Some (\<lambda>service name. Inl ''No recommended backend was available'')\<rparr>"
         and m = "[]"
         and get_password = "\<lambda>service name. Inl ''No recommended backend was available''"
         and exc = "''No recommended backend was available''"
         and legacy = "[]" and explicit_url = None and explicit_token = None
         and require_token = True and raw = "[]" and v = PNone]
    by simp
  have c: "get_login_info sample_python
      (keyring (bare_world\<lparr>keyring := Some (\<lambda>service name. Inr (Some ''not json''))\<rparr>)) = Inr []"
    using keyring_failure_tolerated
      [where py = sample_python
         and w = "bare_world\<lparr>keyring := Some (\<lambda>service name. Inr (Some ''not json''))\<rparr>"
         and m = "[]"
         and get_password = "\<lambda>service name. Inr (Some ''not json'')" and exc = "[]"
         and legacy = "[]" and explicit_url = None and explicit_token = None
         and require_token = True and raw = "''not json''" and v = PNone]
    by (simp add: get_secret_def require_keyring_def of_opt_def sample_loads_other)
  have d: "get_login_info sample_python
      (keyring (bare_world\<lparr>keyring := Some (\<lambda>service name. Inr (Some ''[]''))\<rparr>)) = Inr []"
    using keyring_failure_tolerated
      [where py = sample_python
         and w = "bare_world\<lparr>keyring := Some (\<lambda>service name. Inr (Some ''[]''))\<rparr>"
         and m = "[]"
         and get_password = "\<lambda>service name. Inr (Some ''[]'')" and exc = "[]"
         and legacy = "[]" and explicit_url = None and explicit_token = None
         and require_token = True and raw = "''[]''" and v = "PList []"]
    by (simp add: get_secret_def require_keyring_def of_opt_def sample_loads_other)
  from a b c d show ?thesis by simp
qed

text \<open>
  C10 as stated fails twice. With the vault integration missing, an explicit base URL
  and an explicit token, resolution does not succeed when the legacy config file exists
  and cannot be read: the \<open>OSError\<close> of \<open>read_text\<close> escapes. And a stored login record
  that is a 4301-digit integer, a JSON value that is no object, is not treated as no
  data: \<open>json.loads\<close> raises a \<open>ValueError\<close> that is no \<open>JSONDecodeError\<close>, neither handler
  catches it, and resolution fails although the explicit values are there.
\<close>

theorem keyring_failure_counterexample:
  "get_login_info sample_python (keyring (bare_world\<lparr>files := (\<lambda>path. Unreadable)\<rparr>)) =
     Inl keyring_unavailable \<and>
   resolve_base_url_and_token sample_python (bare_world\<lparr>files := (\<lambda>path. Unreadable)\<rparr>)
     (Some ''https://explicit.example'') (Some ''explicit-token'') True =
     Inl (Escaped ''OSError'') \<and>
   json_loads sample_python huge_integer_text = ValueError \<and>
   get_login_info sample_python
     (keyring (bare_world\<lparr>keyring := Some (\<lambda>service name. Inr (Some huge_integer_text))\<rparr>)) =
     Inl (Escaped ''ValueError'') \<and>
   resolve_base_url_and_token sample_python
     (bare_world\<lparr>keyring := Some (\<lambda>service name. Inr (Some huge_integer_text))\<rparr>)
     (Some ''https://explicit.example'') (Some ''explicit-token'') True =
     Inl (Escaped ''ValueError'')"
proof -
  have g1: "get_login_info sample_python (keyring (bare_world\<lparr>files := (\<lambda>path. Unreadable)\<rparr>)) =
      Inl keyring_unavailable"
    by (simp add: bare_world_simps get_login_info_def get_secret_def require_keyring_def)
  have k1: "load_keyring_login_info sample_python (bare_world\<lparr>files := (\<lambda>path. Unreadable)\<rparr>) =
      Inr []"
    by (simp add: bare_keyring_login bare_world_simps)
  have l1: "load_legacy_login_info sample_python (bare_world\<lparr>files := (\<lambda>path. Unreadable)\<rparr>) =
      Inl (Escaped ''OSError'')"
    by (simp add: load_legacy_login_info_def load_json_file_def)
  have g2: "get_login_info sample_python
      (keyring (bare_world\<lparr>keyring := Some (\<lambda>service name. Inr (Some huge_integer_text))\<rparr>)) =
      Inl (Escaped ''ValueError'')"
    by (simp add: get_login_info_def get_secret_def require_keyring_def of_opt_def
        huge_integer_text_nonempty sample_loads_huge)
  have r1: "resolve_base_url_and_token sample_python (bare_world\<lparr>files := (\<lambda>path. Unreadable)\<rparr>)
      (Some ''https://explicit.example'') (Some ''explicit-token'') True =
      Inl (Escaped ''OSError'')"
    by (rule resolve_legacy_escapes [OF k1 l1])
  have r2: "resolve_base_url_and_token sample_python
      (bare_world\<lparr>keyring := Some (\<lambda>service name. Inr (Some huge_integer_text))\<rparr>)
      (Some ''https://explicit.example'') (Some ''explicit-token'') True =
      Inl (Escaped ''ValueError'')"
    by (rule resolve_keyring_escapes [OF load_keyring_login_info_escapes [OF g2]])
  from g1 r1 sample_loads_huge g2 r2 show ?thesis by (intro conjI)
qed

section \<open>The HTTP pipeline\<close>

lemma headers_no_token:
  "token self = None \<or> token self = Some [] \<Longrightarrow>
   NPMClient_headers self auth_required =
     (if auth_required then Inl no_token_configured
      else Inr [(''Content-Type'', ''application/json'')])"
  by (auto simp: NPMClient_headers_def Let_def)

lemma headers_token:
  "token self = Some t \<Longrightarrow> t \<noteq> [] \<Longrightarrow>
   NPMClient_headers self auth_required =
     Inr [(''Content-Type'', ''application/json''), (''Authorization'', ''Bearer '' @ t)]"
  by (simp add: NPMClient_headers_def Let_def)

lemma request_sent:
  "NPMClient_headers self auth_required = Inr headers \<Longrightarrow>
   sent (NPMClient_request py debug net self method path json_body auth_required) =
     [\<lparr>req_method = method, req_url = rstrip CHR ''/'' (base_url self) @ path,
       req_headers = headers, req_json = json_body, req_timeout = timeout_seconds self\<rparr>]"
  by (simp add: NPMClient_request_def NPMClient_send_request_def Let_def
      split: net_outcome.splits)

lemma request_success:
  "NPMClient_headers self auth_required = Inr headers \<Longrightarrow>
   net \<lparr>req_method = method, req_url = rstrip CHR ''/'' (base_url self) @ path,
        req_headers = headers, req_json = json_body, req_timeout = timeout_seconds self\<rparr> = Answer r \<Longrightarrow>
   status_code r < 400 \<Longrightarrow>
   result (NPMClient_request py debug net self method path json_body auth_required) =
     Inr (NPMClient_parse_payload py r)"
  by (simp add: NPMClient_request_def NPMClient_send_request_def Let_def)

lemma request_failure:
  "NPMClient_headers self auth_required = Inr headers \<Longrightarrow>
   net \<lparr>req_method = method, req_url = rstrip CHR ''/'' (base_url self) @ path,
        req_headers = headers, req_json = json_body, req_timeout = timeout_seconds self\<rparr> = Answer r \<Longrightarrow>
   400 \<le> status_code r \<Longrightarrow>
   result (NPMClient_request py debug net self method path json_body auth_required) =
     Inl (NPMClient_raise_api_error py debug method path r (NPMClient_parse_payload py r) json_body)"
  by (simp add: NPMClient_request_def NPMClient_send_request_def Let_def)

lemma raise_api_error_first_line:
  "\<exists>rest. NPMClient_raise_api_error py debug method path r payload json_body =
     NPMError (''API '' @ str_int (status_code r) @ '' '' @ method @ '' '' @ path @ '': '' @
               py_str (repr py) (NPMClient_error_message py payload) @ rest)"
  by (simp add: NPMClient_raise_api_error_def Let_def join_Cons split: option.splits)

lemma sample_headers:
  "NPMClient_headers sample_client auth_required =
     Inr [(''Content-Type'', ''application/json''), (''Authorization'', ''Bearer abcdefghijklmnop'')]"
  by (simp add: NPMClient_headers_def sample_client_def)

text \<open>
  C5. A request through a client whose token is None or empty, with \<open>auth_required\<close>
  true, ends with the error \<open>No API token configured\<close> and sends nothing. With a
  non-empty token the headers built are the content type and \<open>Authorization: Bearer\<close>
  followed by the token, and they are the headers of the request sent.
\<close>

theorem request_needs_token:
  "((token self = None \<or> token self = Some []) \<and> auth_required \<longrightarrow>
      NPMClient_request py debug net self method path json_body auth_required =
        \<lparr>sent = [], result = Inl no_token_configured\<rparr>) \<and>
   (token self = Some t \<and> t \<noteq> [] \<longrightarrow>
      NPMClient_headers self auth_required =
        Inr [(''Content-Type'', ''application/json''), (''Authorization'', ''Bearer '' @ t)] \<and>
      map req_headers
        (sent (NPMClient_request py debug net self method path json_body auth_required)) =
        [[(''Content-Type'', ''application/json''), (''Authorization'', ''Bearer '' @ t)]])"
proof (intro conjI impI)
  assume "(token self = None \<or> token self = Some []) \<and> auth_required"
  then have "NPMClient_headers self auth_required = Inl no_token_configured"
    by (simp add: headers_no_token)
  then show "NPMClient_request py debug net self method path json_body auth_required =
        \<lparr>sent = [], result = Inl no_token_configured\<rparr>"
    by (simp add: NPMClient_request_def)
next
  assume a: "token self = Some t \<and> t \<noteq> []"
  then show h: "NPMClient_headers self auth_required =
        Inr [(''Content-Type'', ''application/json''), (''Authorization'', ''Bearer '' @ t)]"
    by (simp add: headers_token)
  show "map req_headers
        (sent (NPMClient_request py debug net self method path json_body auth_required)) =
        [[(''Content-Type'', ''application/json''), (''Authorization'', ''Bearer '' @ t)]]"
    by (simp add: request_sent [OF h])
qed

theorem request_needs_token_witness:
  "NPMClient_request sample_python False (answering 200 ''OK'') (sample_client\<lparr>token := None\<rparr>)
     ''POST'' ''/nginx/proxy-hosts'' None True =
     \<lparr>sent = [], result = Inl no_token_configured\<rparr> \<and>
   map req_headers
     (sent (NPMClient_request sample_python False (answering 200 ''OK'') sample_client
        ''POST'' ''/nginx/proxy-hosts'' None True)) =
     [[(''Content-Type'', ''application/json''), (''Authorization'', ''Bearer abcdefghijklmnop'')]]"
  using
    request_needs_token [of "sample_client\<lparr>token := None\<rparr>" True sample_python False
      "answering 200 ''OK''" "''POST''" "''/nginx/proxy-hosts''" None "[]"]
    request_needs_token [of sample_client True sample_python False
      "answering 200 ''OK''" "''POST''" "''/nginx/proxy-hosts''" None "''abcdefghijklmnop''"]
  by (simp add: sample_client_def)

lemma parse_payload_loaded:
  "json_loads py (response_content r) = Loaded v \<Longrightarrow> NPMClient_parse_payload py r = v"
  by (simp add: NPMClient_parse_payload_def)

lemma parse_payload_not_loaded:
  "\<forall>v. json_loads py (response_content r) \<noteq> Loaded v \<Longrightarrow>
   NPMClient_parse_payload py r = PStr (response_text r)"
  by (cases "json_loads py (response_content r)") (simp_all add: NPMClient_parse_payload_def)

text \<open>
  C7. The payload of a response is the value its body decodes to, and the raw text of
  the body when decoding raises (a \<open>JSONDecodeError\<close> or another \<open>ValueError\<close>). A
  response with a status below 400 makes the request return that payload: the decoded
  value, or the raw text. So a 200 response with the body \<open>OK\<close>, which is not JSON,
  returns the text \<open>OK\<close>.
\<close>

theorem parse_payload_fallback:
  "(json_loads py (response_content r) = Loaded v \<longrightarrow> NPMClient_parse_payload py r = v) \<and>
   ((\<forall>v'. json_loads py (response_content r) \<noteq> Loaded v') \<longrightarrow>
      NPMClient_parse_payload py r = PStr (response_text r)) \<and>
   (NPMClient_headers self auth_required = Inr headers \<and>
    net \<lparr>req_method = verb, req_url = rstrip CHR ''/'' (base_url self) @ path,
         req_headers = headers, req_json = json_body, req_timeout = timeout_seconds self\<rparr> =
      Answer r \<and>
    status_code r < 400 \<longrightarrow>
      result (NPMClient_request py debug net self verb path json_body auth_required) =
        Inr (case json_loads py (response_content r) of
               Loaded parsed \<Rightarrow> parsed
             | JSONDecodeError \<Rightarrow> PStr (response_text r)
             | ValueError \<Rightarrow> PStr (response_text r))) \<and>
   (NPMClient_headers self auth_required = Inr headers \<and>
    net \<lparr>req_method = verb, req_url = rstrip CHR ''/'' (base_url self) @ path,
         req_headers = headers, req_json = json_body, req_timeout = timeout_seconds self\<rparr> =
      Answer r \<and>
    status_code r = 200 \<and> response_content r = ''OK'' \<and> response_text r = ''OK'' \<and>
    json_loads py ''OK'' = JSONDecodeError \<longrightarrow>
      result (NPMClient_request py debug net self verb path json_body auth_required) =
        Inr (PStr ''OK''))"
proof (intro conjI impI)
  assume "json_loads py (response_content r) = Loaded v"
  then show "NPMClient_parse_payload py r = v"
    by (rule parse_payload_loaded)
next
  assume "\<forall>v'. json_loads py (response_content r) \<noteq> Loaded v'"
  then show "NPMClient_parse_payload py r = PStr (response_text r)"
    by (rule parse_payload_not_loaded)
next
  assume "NPMClient_headers self auth_required = Inr headers \<and>
    net \<lparr>req_method = verb, req_url = rstrip CHR ''/'' (base_url self) @ path,
         req_headers = headers, req_json = json_body, req_timeout = timeout_seconds self\<rparr> =
      Answer r \<and>
    status_code r < 400"
  then have "result (NPMClient_request py debug net self verb path json_body auth_required) =
      Inr (NPMClient_parse_payload py r)"
    by (simp add: request_success)
  then show "result (NPMClient_request py debug net self verb path json_body auth_required) =
        Inr (case json_loads py (response_content r) of
               Loaded parsed \<Rightarrow> parsed
             | JSONDecodeError \<Rightarrow> PStr (response_text r)
             | ValueError \<Rightarrow> PStr (response_text r))"
    by (simp add: NPMClient_parse_payload_def)
next
  assume a: "NPMClient_headers self auth_required = Inr headers \<and>
    net \<lparr>req_method = verb, req_url = rstrip CHR ''/'' (base_url self) @ path,
         req_headers = headers, req_json = json_body, req_timeout = timeout_seconds self\<rparr> =
      Answer r \<and>
    status_code r = 200 \<and> response_content r = ''OK'' \<and> response_text r = ''OK'' \<and>
    json_loads py ''OK'' = JSONDecodeError"
  then have "result (NPMClient_request py debug net self verb path json_body auth_required) =
        Inr (NPMClient_parse_payload py r)"
    by (simp add: request_success)
  with a show "result (NPMClient_request py debug net self verb path json_body auth_required) =
        Inr (PStr ''OK'')"
    by (simp add: NPMClient_parse_payload_def)
qed

theorem parse_payload_fallback_witness:
  "json_loads sample_python ''OK'' = JSONDecodeError \<and>
   NPMClient_request sample_python False (answering 200 ''OK'') sample_client
     ''GET'' ''/nginx/proxy-hosts'' None True =
     \<lparr>sent = [\<lparr>req_method = ''GET'', req_url = ''https://npm.example/nginx/proxy-hosts'',
               req_headers = [(''Content-Type'', ''application/json''),
                              (''Authorization'', ''Bearer abcdefghijklmnop'')],
               req_json = None, req_timeout = 180\<rparr>],
      result = Inr (PStr ''OK'')\<rparr> \<and>
   json_loads sample_python ''[]'' = Loaded (PList []) \<and>
   result (NPMClient_request sample_python False (answering 200 ''[]'') sample_client
     ''GET'' ''/nginx/proxy-hosts'' None True) = Inr (PList [])"
proof -
  have u: "rstrip CHR ''/'' (base_url sample_client) = ''https://npm.example''"
    by (simp add: rstrip_def sample_client_def)
  have "result (NPMClient_request sample_python False (answering 200 ''OK'') sample_client
     ''GET'' ''/nginx/proxy-hosts'' None True) = Inr (PStr ''OK'')"
    using parse_payload_fallback
      [where py = sample_python and self = sample_client and auth_required = True
         and headers = "[(''Content-Type'', ''application/json''),
                         (''Authorization'', ''Bearer abcdefghijklmnop'')]"
         and net = "answering 200 ''OK''" and verb = "''GET''" and path = "''/nginx/proxy-hosts''"
         and json_body = None and debug = False and v = PNone
         and r = "\<lparr>status_code = 200, response_content = ''OK'', response_text = ''OK'',
                   response_headers = []\<rparr>"]
    by (simp add: sample_headers sample_loads_other answering_def)
  moreover have "result (NPMClient_request sample_python False (answering 200 ''[]'') sample_client
     ''GET'' ''/nginx/proxy-hosts'' None True) = Inr (PList [])"
    using parse_payload_fallback
      [where py = sample_python and self = sample_client and auth_required = True
         and headers = "[(''Content-Type'', ''application/json''),
                         (''Authorization'', ''Bearer abcdefghijklmnop'')]"
         and net = "answering 200 ''[]''" and verb = "''GET''" and path = "''/nginx/proxy-hosts''"
         and json_body = None and debug = False and v = "PList []"
         and r = "\<lparr>status_code = 200, response_content = ''[]'', response_text = ''[]'',
                   response_headers = []\<rparr>"]
    by (simp add: sample_headers sample_loads_other answering_def)
  moreover have "sent (NPMClient_request sample_python False (answering 200 ''OK'') sample_client
     ''GET'' ''/nginx/proxy-hosts'' None True) =
     [\<lparr>req_method = ''GET'', req_url = ''https://npm.example/nginx/proxy-hosts'',
       req_headers = [(''Content-Type'', ''application/json''),
                      (''Authorization'', ''Bearer abcdefghijklmnop'')],
       req_json = None, req_timeout = 180\<rparr>]"
    by (simp add: request_sent [OF sample_headers] u) (simp add: sample_client_def)
  ultimately show ?thesis
    by (simp add: sample_loads_other)
qed

text \<open>
  C6, as the code has it. For a body that is a dict whose \<open>error\<close> entry is a dict, the
  message is that entry's \<open>message\<close> when it is non-empty and the stringified error
  object otherwise; the top-level message is not consulted. For any other dict it is
  the top-level \<open>message\<close> when non-empty and the stringified body otherwise. For a body
  that is no dict it is the stringified body. A response with status 400 or more makes
  the request fail with an error whose text starts \<open>API status verb path: message\<close>.
  A 404 response whose body parses to the dict with error message \<open>Host not found\<close>
  gives exactly the message \<open>Host not found\<close>.
\<close>

theorem error_message_precedence:
  "(dict_get d ''error'' = PDict error_obj \<longrightarrow>
      NPMClient_error_message py (PDict d) =
        (if truthy (dict_get error_obj ''message'') then dict_get error_obj ''message''
         else PStr (py_str (repr py) (PDict error_obj)))) \<and>
   ((\<forall>obj. dict_get d ''error'' \<noteq> PDict obj) \<longrightarrow>
      NPMClient_error_message py (PDict d) =
        (if truthy (dict_get d ''message'') then dict_get d ''message''
         else PStr (py_str (repr py) (PDict d)))) \<and>
   ((\<forall>d'. payload \<noteq> PDict d') \<longrightarrow>
      NPMClient_error_message py payload = PStr (py_str (repr py) payload)) \<and>
   (NPMClient_headers self auth_required = Inr headers \<and>
    net \<lparr>req_method = verb, req_url = rstrip CHR ''/'' (base_url self) @ path,
         req_headers = headers, req_json = json_body, req_timeout = timeout_seconds self\<rparr> =
      Answer r \<and>
    400 \<le> status_code r \<longrightarrow>
      (\<exists>rest. result (NPMClient_request py debug net self verb path json_body auth_required) =
         Inl (NPMError
           (''API '' @ str_int (status_code r) @ '' '' @ verb @ '' '' @ path @ '': '' @
            py_str (repr py) (NPMClient_error_message py (NPMClient_parse_payload py r)) @
            rest)))) \<and>
   (NPMClient_headers self auth_required = Inr headers \<and>
    net \<lparr>req_method = verb, req_url = rstrip CHR ''/'' (base_url self) @ path,
         req_headers = headers, req_json = json_body, req_timeout = timeout_seconds self\<rparr> =
      Answer r \<and>
    status_code r = 404 \<and>
    json_loads py (response_content r) =
      Loaded (PDict [(''error'', PDict [(''message'', PStr ''Host not found'')])]) \<longrightarrow>
      NPMClient_error_message py (NPMClient_parse_payload py r) = PStr ''Host not found'' \<and>
      (\<exists>rest. result (NPMClient_request py debug net self verb path json_body auth_required) =
         Inl (NPMError (''API 404 '' @ verb @ '' '' @ path @ '': Host not found'' @ rest))))"
proof (intro conjI impI)
  assume "dict_get d ''error'' = PDict error_obj"
  then show "NPMClient_error_message py (PDict d) =
        (if truthy (dict_get error_obj ''message'') then dict_get error_obj ''message''
         else PStr (py_str (repr py) (PDict error_obj)))"
    by (simp add: NPMClient_error_message_def py_or_def)
next
  assume "\<forall>obj. dict_get d ''error'' \<noteq> PDict obj"
  then show "NPMClient_error_message py (PDict d) =
        (if truthy (dict_get d ''message'') then dict_get d ''message''
         else PStr (py_str (repr py) (PDict d)))"
    by (cases "dict_get d ''error''") (simp_all add: NPMClient_error_message_def py_or_def)
next
  assume "\<forall>d'. payload \<noteq> PDict d'"
  then show "NPMClient_error_message py payload = PStr (py_str (repr py) payload)"
    by (cases payload) (simp_all add: NPMClient_error_message_def)
next
  assume "NPMClient_headers self auth_required = Inr headers \<and>
    net \<lparr>req_method = verb, req_url = rstrip CHR ''/'' (base_url self) @ path,
         req_headers = headers, req_json = json_body, req_timeout = timeout_seconds self\<rparr> =
      Answer r \<and>
    400 \<le> status_code r"
  then have "result (NPMClient_request py debug net self verb path json_body auth_required) =
      Inl (NPMClient_raise_api_error py debug verb path r (NPMClient_parse_payload py r)
             json_body)"
    by (simp add: request_failure)
  then show "\<exists>rest. result (NPMClient_request py debug net self verb path json_body auth_required) =
         Inl (NPMError
           (''API '' @ str_int (status_code r) @ '' '' @ verb @ '' '' @ path @ '': '' @
            py_str (repr py) (NPMClient_error_message py (NPMClient_parse_payload py r)) @
            rest))"
    using raise_api_error_first_line
      [of py debug verb path r "NPMClient_parse_payload py r" json_body]
    by auto
next
  assume a: "NPMClient_headers self auth_required = Inr headers \<and>
    net \<lparr>req_method = verb, req_url = rstrip CHR ''/'' (base_url self) @ path,
         req_headers = headers, req_json = json_body, req_timeout = timeout_seconds self\<rparr> =
      Answer r \<and>
    status_code r = 404 \<and>
    json_loads py (response_content r) =
      Loaded (PDict [(''error'', PDict [(''message'', PStr ''Host not found'')])])"
  then have p: "NPMClient_parse_payload py r =
      PDict [(''error'', PDict [(''message'', PStr ''Host not found'')])]"
    by (simp add: NPMClient_parse_payload_def)
  show m: "NPMClient_error_message py (NPMClient_parse_payload py r) = PStr ''Host not found''"
    by (simp add: p NPMClient_error_message_def dict_get_def py_or_def)
  from a have "result (NPMClient_request py debug net self verb path json_body auth_required) =
      Inl (NPMClient_raise_api_error py debug verb path r (NPMClient_parse_payload py r)
             json_body)"
    by (simp add: request_failure)
  moreover from a have "status_code r = 404" by simp
  ultimately show "\<exists>rest.
      result (NPMClient_request py debug net self verb path json_body auth_required) =
        Inl (NPMError (''API 404 '' @ verb @ '' '' @ path @ '': Host not found'' @ rest))"
    using raise_api_error_first_line
      [of py debug verb path r "NPMClient_parse_payload py r" json_body]
    by (auto simp: m py_str_def str_int_404)
qed

lemma sample_loads_error:
  "json_loads sample_python not_found_body =
     Loaded (PDict [(''error'', PDict [(''message'', PStr ''Host not found'')])])"
  by (simp add: sample_python_def)

theorem error_message_precedence_witness:
  "NPMClient_error_message sample_python
     (NPMClient_parse_payload sample_python
        \<lparr>status_code = 404, response_content = not_found_body,
          response_text = not_found_body, response_headers = []\<rparr>) =
     PStr ''Host not found'' \<and>
   (\<exists>rest. result (NPMClient_request sample_python False (answering 404 not_found_body)
        sample_client ''GET'' ''/nginx/proxy-hosts/9'' None True) =
      Inl (NPMError (''API 404 GET /nginx/proxy-hosts/9: Host not found'' @ rest)))"
  using error_message_precedence
    [where py = sample_python and self = sample_client and auth_required = True
       and headers = "[(''Content-Type'', ''application/json''),
                       (''Authorization'', ''Bearer abcdefghijklmnop'')]"
       and net = "answering 404 not_found_body"
       and verb = "''GET''" and path = "''/nginx/proxy-hosts/9''"
       and json_body = None and debug = False
       and r = "\<lparr>status_code = 404, response_content = not_found_body,
          response_text = not_found_body, response_headers = []\<rparr>"
       and d = "[(''error'', PDict [(''message'', PStr ''Host not found'')])]"
       and error_obj = "[(''message'', PStr ''Host not found'')]"
       and payload = "PStr ''OK''"]
  by (simp add: sample_headers sample_loads_error answering_def)

text \<open>
  C6 as stated fails: for the body with an empty error object and the top-level message
  \<open>boom\<close>, the stated precedence gives \<open>boom\<close>, and the code gives the stringified error
  object.
\<close>

theorem error_message_counterexample:
  "NPMClient_error_message sample_python
     (PDict [(''error'', PDict []), (''message'', PStr ''boom'')]) = PStr ''{}'' \<and>
   spec_error_message sample_python
     (PDict [(''error'', PDict []), (''message'', PStr ''boom'')]) = PStr ''boom''"
  by (simp add: NPMClient_error_message_def spec_error_message_def dict_get_def py_or_def
      py_str_def sample_python_def)

end
